theory Spec2Isabelle
  imports Complex_Main "HOL-Library.Word" "HOL-Library.Sublist"
begin

unbundle bit_operations_syntax

section \<open>X-TO-FBX: the scene data model, the timing corrector, the binary reader and the parsers\<close>

text \<open>
  A shallow embedding of the parts of the converter that the checked properties are about.
  Conventions of the embedding:
  \<^item> a C++ \<^verbatim>\<open>float\<close> is a \<^typ>\<open>real\<close>: the arithmetic is exact, and rounding, NaN and the
    infinities of IEEE arithmetic are outside the model. The properties below that compute with
    floats either evaluate values on which single precision is exact (the keyframe conversion)
    or do not depend on the computed value (the interval analysis);
  \<^item> a C++ \<^verbatim>\<open>int\<close> is an \<^typ>\<open>int\<close> (sizes are far below \<open>2^31\<close>, no arithmetic
    on them overflows); \<^verbatim>\<open>size_t\<close> is a 64-bit word wherever the code computes with it;
  \<^item> a byte is an \<^typ>\<open>8 word\<close>, a \<^verbatim>\<open>std::string\<close> is a \<^typ>\<open>string\<close>;
  \<^item> a member function that mutates its object returns the new object next to its result;
  \<^item> an exception and an access outside a container are values of an error type;
  \<^item> log output is not part of the model.
\<close>

subsection \<open>Data model (XFileData.h)\<close>

datatype XVector3 = XVector3 (v3_x: real) (v3_y: real) (v3_z: real)

datatype XVector2 = XVector2 (v2_u: real) (v2_v: real)

datatype XQuaternion = XQuaternion (q_x: real) (q_y: real) (q_z: real) (q_w: real)

text \<open>\<^verbatim>\<open>XMatrix4x4\<close>: sixteen cells, row by row.\<close>

type_synonym XMatrix4x4 = "real list list"

definition XMatrix4x4_zero :: XMatrix4x4 where
  "XMatrix4x4_zero = replicate 4 (replicate 4 0)"

record XMaterial =
  material_name :: string
  diffuseColor :: XVector3
  specularColor :: XVector3
  emissiveColor :: XVector3
  shininess :: real
  transparency :: real
  diffuseTexture :: string
  normalTexture :: string
  specularTexture :: string

record XKeyframe =
  time :: real
  position :: XVector3
  rotation :: XQuaternion
  scale :: XVector3

text \<open>\<^verbatim>\<open>XKeyframe() : time(0), scale(1, 1, 1) {}\<close>\<close>

definition XKeyframe_new :: XKeyframe where
  "XKeyframe_new =
     \<lparr>time = 0, position = XVector3 0 0 0, rotation = XQuaternion 0 0 0 1, scale = XVector3 1 1 1\<rparr>"

text \<open>
  \<^verbatim>\<open>boneKeyframes\<close> is a \<^verbatim>\<open>std::map\<close> from bone name to keyframes; it is kept as the
  list of its entries in iteration order.
\<close>

record XAnimationSet =
  name :: string
  duration :: real
  ticksPerSecond :: real
  keyframes :: "XKeyframe list"
  boneKeyframes :: "(string \<times> XKeyframe list) list"

text \<open>\<^verbatim>\<open>XAnimationSet() : duration(0), ticksPerSecond(4800.0f) {}\<close>\<close>

definition XAnimationSet_new :: XAnimationSet where
  "XAnimationSet_new =
     \<lparr>name = [], duration = 0, ticksPerSecond = 4800, keyframes = [], boneKeyframes = []\<rparr>"

record XBone =
  bone_name :: string
  parentName :: string
  parentIndex :: int
  bindPose :: XMatrix4x4
  offsetMatrix :: XMatrix4x4
  childIndices :: "int list"

record XVertex =
  vertex_position :: XVector3
  normal :: XVector3
  texCoord :: XVector2
  boneIndices :: "int list"
  boneWeights :: "real list"

definition XVertex_new :: XVertex where
  "XVertex_new =
     \<lparr>vertex_position = XVector3 0 0 0, normal = XVector3 0 0 0, texCoord = XVector2 0 0,
      boneIndices = [], boneWeights = []\<rparr>"

text \<open>
  \<^verbatim>\<open>XFace\<close> holds the triangle twice: the array \<^verbatim>\<open>int indices[3]\<close> (a triple here) and
  the vector \<^verbatim>\<open>vertexIndices\<close>. The constructor sets both to zeros and the material index to
  \<open>-1\<close>; \<^verbatim>\<open>SetIndices\<close> is the one member that writes both.
\<close>

record XFace =
  indices :: "int \<times> int \<times> int"
  vertexIndices :: "int list"
  materialIndex :: int

definition XFace_new :: XFace where
  "XFace_new = \<lparr>indices = (0, 0, 0), vertexIndices = [0, 0, 0], materialIndex = -1\<rparr>"

definition SetIndices :: "int \<Rightarrow> int \<Rightarrow> int \<Rightarrow> XFace \<Rightarrow> XFace" where
  "SetIndices i0 i1 i2 face = face\<lparr>indices := (i0, i1, i2), vertexIndices := [i0, i1, i2]\<rparr>"

text \<open>The three cells of the array in the order of \<^verbatim>\<open>indices[0], indices[1], indices[2]\<close>.\<close>

definition indices_list :: "XFace \<Rightarrow> int list" where
  "indices_list face = (case indices face of (i0, i1, i2) \<Rightarrow> [i0, i1, i2])"

record XMeshData =
  mesh_name :: string
  vertices :: "XVertex list"
  faces :: "XFace list"
  materials :: "XMaterial list"
  bones :: "XBone list"
  animations :: "XAnimationSet list"
  globalTicksPerSecond :: real
  hasTimingInfo :: bool

text \<open>\<^verbatim>\<open>XMeshData() : globalTicksPerSecond(4800.0f), hasTimingInfo(false) {}\<close>\<close>

definition XMeshData_new :: XMeshData where
  "XMeshData_new =
     \<lparr>mesh_name = [], vertices = [], faces = [], materials = [], bones = [], animations = [],
      globalTicksPerSecond = 4800, hasTimingInfo = False\<rparr>"

datatype Format = TEXT | BINARY | COMPRESSED

record XFileHeader =
  format :: Format
  majorVersion :: int
  minorVersion :: int
  hasAnimationTimingInfo :: bool
  header_ticksPerSecond :: real


text \<open>
  \<^verbatim>\<open>XFileData\<close>: the primary mesh \<^verbatim>\<open>meshData\<close>, and beside it the sequence \<^verbatim>\<open>meshes\<close>
  ("multiple meshes support"), the flat materials and animations and the metadata map that no
  parser of the repository writes.
\<close>

record XFileData =
  header :: XFileHeader
  meshData :: XMeshData
  meshes :: "XMeshData list"
  file_materials :: "XMaterial list"
  file_animations :: "XAnimationSet list"
  metadata :: "(string \<times> string) list"
  parseSuccessful :: bool
  parseErrors :: "string list"
  parseWarnings :: "string list"


subsection \<open>Animation timing corrector (AnimationTimingCorrector.cpp)\<close>

text \<open>\<^verbatim>\<open>CalculateMedian\<close> sorts its copy of the values in ascending order.\<close>

definition CalculateMedian :: "real list \<Rightarrow> real" where
  "CalculateMedian values =
     (if values = [] then 0
      else
        let sorted_values = sort values;
            middle = length sorted_values div 2
        in if length sorted_values mod 2 = 0
           then (sorted_values ! (middle - 1) + sorted_values ! middle) / 2
           else sorted_values ! middle)"

text \<open>The loop \<^verbatim>\<open>for i = 1 .. size-1: intervals.push_back(times[i] - times[i-1])\<close>.\<close>

fun keyframe_intervals :: "real list \<Rightarrow> real list" where
  "keyframe_intervals (a # b # ts) = (b - a) # keyframe_intervals (b # ts)"
| "keyframe_intervals ts = []"

text \<open>
  The loop over the frame rates \<open>24, 25, 30, 60\<close>; \<open>Some r\<close> is the \<^verbatim>\<open>return r\<close> inside the
  loop, \<open>None\<close> is leaving the loop without a match.
\<close>

fun fps_loop :: "real \<Rightarrow> real list \<Rightarrow> real option" where
  "fps_loop medianInterval [] = None"
| "fps_loop medianInterval (fps # rest) =
     (let expectedInterval = 4800 / fps
      in if \<bar>medianInterval - expectedInterval\<bar> < expectedInterval * (1 / 10) then Some 4800
         else fps_loop medianInterval rest)"

definition AnalyzeKeyframePattern :: "real list \<Rightarrow> real" where
  "AnalyzeKeyframePattern keyframeTimes =
     (if length keyframeTimes < 2 then 4800
      else
        let intervals = keyframe_intervals keyframeTimes
        in if intervals \<noteq> [] then
             (case fps_loop (CalculateMedian intervals) [24, 25, 30, 60] of
                Some r \<Rightarrow> r
              | None \<Rightarrow> 4800)
           else 4800)"

definition ConvertKeyframeTiming :: "XKeyframe list \<Rightarrow> real \<Rightarrow> real \<Rightarrow> XKeyframe list" where
  "ConvertKeyframeTiming originalKeyframes originalTicksPerSecond targetTicksPerSecond =
     (let convertedKeyframes = originalKeyframes
      in if \<bar>originalTicksPerSecond - targetTicksPerSecond\<bar> > 1 / 10 then
           (let timeScale = originalTicksPerSecond / targetTicksPerSecond
            in map (\<lambda>keyframe. keyframe\<lparr>time := time keyframe * timeScale\<rparr>) convertedKeyframes)
         else convertedKeyframes)"

subsection \<open>Mesh validation (XFileData.cpp)\<close>

text \<open>
  \<^verbatim>\<open>GetValidationErrors\<close> returns a list of messages. Each message is kept as a constructor
  with the values the message prints:
  \<^item> \<open>NoVertices\<close>: "No vertices found in mesh"; \<open>NoFaces\<close>: "No faces found in mesh";
  \<^item> \<open>InvalidVertexIndex i v\<close>: "Face i has invalid vertex index: v";
  \<^item> \<open>InvalidMaterialIndex i m\<close>: "Face i has invalid material index: m";
  \<^item> \<open>InvalidParentIndex b p\<close>: "Bone 'b' has invalid parent index: p";
  \<^item> \<open>SelfParent b\<close>: "Bone 'b' references itself as parent";
  \<^item> \<open>MismatchedBoneCounts i\<close>: "Vertex i has mismatched bone indices and weights count";
  \<^item> \<open>InvalidBoneIndex i b\<close>: "Vertex i references invalid bone index: b";
  \<^item> \<open>WeightSum i w\<close>: "Vertex i has bone weights that don't sum to 1.0: w";
  \<^item> \<open>AnimationNoName i\<close>: "Animation i has no name";
  \<^item> \<open>InvalidTicksPerSecond a t\<close>: "Animation 'a' has invalid ticksPerSecond: t";
  \<^item> \<open>NoKeyframes a\<close>: "Animation 'a' has no keyframes";
  \<^item> \<open>KeyframesOutOfOrder a j\<close>: "Animation 'a' has keyframes out of order at index j";
  \<^item> \<open>NonExistentBone a b\<close>: "Animation 'a' references non-existent bone: b";
  \<^item> \<open>InvalidGlobalTicks t\<close>: "Invalid global ticks per second: t".
\<close>

datatype validation_error =
    NoVertices
  | NoFaces
  | InvalidVertexIndex nat int
  | InvalidMaterialIndex nat int
  | InvalidParentIndex string int
  | SelfParent string
  | MismatchedBoneCounts nat
  | InvalidBoneIndex nat int
  | WeightSum nat real
  | AnimationNoName nat
  | InvalidTicksPerSecond string real
  | NoKeyframes string
  | KeyframesOutOfOrder string nat
  | NonExistentBone string string
  | InvalidGlobalTicks real

text \<open>The body of the loop over the faces, for face number \<open>i\<close>.\<close>

definition face_errors :: "int \<Rightarrow> nat \<Rightarrow> nat \<Rightarrow> XFace \<Rightarrow> validation_error list" where
  "face_errors maxVertexIndex materialCount i face =
     concat (map (\<lambda>v. if v < 0 \<or> v > maxVertexIndex then [InvalidVertexIndex i v] else [])
               (indices_list face))
     @ (if materialIndex face \<ge> int materialCount \<and> materialIndex face \<noteq> -1
        then [InvalidMaterialIndex i (materialIndex face)] else [])"

definition bone_errors :: "nat \<Rightarrow> nat \<Rightarrow> XBone \<Rightarrow> validation_error list" where
  "bone_errors boneCount i bone =
     (if parentIndex bone \<ge> int boneCount
      then [InvalidParentIndex (bone_name bone) (parentIndex bone)] else [])
     @ (if parentIndex bone = int i then [SelfParent (bone_name bone)] else [])"

definition vertex_errors :: "nat \<Rightarrow> nat \<Rightarrow> XVertex \<Rightarrow> validation_error list" where
  "vertex_errors boneCount i vertex =
     (if length (boneIndices vertex) \<noteq> length (boneWeights vertex)
      then [MismatchedBoneCounts i] else [])
     @ concat (map (\<lambda>boneIndex. if boneIndex \<ge> int boneCount then [InvalidBoneIndex i boneIndex] else [])
                 (boneIndices vertex))
     @ (if boneWeights vertex \<noteq> [] then
          (let weightSum = foldl (+) 0 (boneWeights vertex)
           in if \<bar>weightSum - 1\<bar> > 1 / 100 then [WeightSum i weightSum] else [])
        else [])"

text \<open>
  The loop \<^verbatim>\<open>for j = 1 ..: if time[j] < time[j-1] { report j; break; }\<close>: the first index
  whose keyframe is earlier than its predecessor, starting the count at \<open>j\<close>.
\<close>

fun first_out_of_order :: "nat \<Rightarrow> real list \<Rightarrow> nat option" where
  "first_out_of_order j (a # b # ts) =
     (if b < a then Some j else first_out_of_order (Suc j) (b # ts))"
| "first_out_of_order j ts = None"

definition animation_errors :: "XBone list \<Rightarrow> nat \<Rightarrow> XAnimationSet \<Rightarrow> validation_error list" where
  "animation_errors bs i anim =
     (if name anim = [] then [AnimationNoName i] else [])
     @ (if ticksPerSecond anim \<le> 0 then [InvalidTicksPerSecond (name anim) (ticksPerSecond anim)] else [])
     @ (if keyframes anim = [] \<and> boneKeyframes anim = [] then [NoKeyframes (name anim)] else [])
     @ (case first_out_of_order 1 (map time (keyframes anim)) of
          Some j \<Rightarrow> [KeyframesOutOfOrder (name anim) j]
        | None \<Rightarrow> [])
     @ concat (map (\<lambda>(boneName, track).
                      if List.member (map bone_name bs) boneName then []
                      else [NonExistentBone (name anim) boneName])
                 (boneKeyframes anim))"

definition GetValidationErrors :: "XMeshData \<Rightarrow> validation_error list" where
  "GetValidationErrors m =
     (if vertices m = [] then [NoVertices]
      else
        (if faces m = [] then [NoFaces] else [])
        @ (let maxVertexIndex = int (length (vertices m)) - 1
           in concat (map (\<lambda>(i, face). face_errors maxVertexIndex (length (materials m)) i face)
                        (enumerate 0 (faces m))))
        @ (if bones m \<noteq> [] then
             concat (map (\<lambda>(i, bone). bone_errors (length (bones m)) i bone) (enumerate 0 (bones m)))
             @ concat (map (\<lambda>(i, vertex). vertex_errors (length (bones m)) i vertex)
                         (enumerate 0 (vertices m)))
           else [])
        @ concat (map (\<lambda>(i, anim). animation_errors (bones m) i anim) (enumerate 0 (animations m)))
        @ (if hasTimingInfo m \<and> globalTicksPerSecond m \<le> 0
           then [InvalidGlobalTicks (globalTicksPerSecond m)] else []))"

definition IsValid :: "XMeshData \<Rightarrow> bool" where
  "IsValid m \<longleftrightarrow> GetValidationErrors m = []"

text \<open>\<^verbatim>\<open>XFileData::IsValid\<close>\<close>

definition XFileData_IsValid :: "XFileData \<Rightarrow> bool" where
  "XFileData_IsValid d \<longleftrightarrow> parseSuccessful d \<and> IsValid (meshData d)"

subsection \<open>Timing extraction of the text parser (XFileParser.cpp)\<close>

text \<open>
  \<^verbatim>\<open>ExtractTimingInformation\<close> works on the parser's \<^verbatim>\<open>parsedData_\<close>. The first loop stops at
  the first animation whose \<^verbatim>\<open>ticksPerSecond\<close> is positive (\<^const>\<open>List.find\<close>).
\<close>

definition ExtractTimingInformation :: "XFileData \<Rightarrow> bool \<times> XFileData" where
  "ExtractTimingInformation parsedData =
     (let anims = animations (meshData parsedData);
          (globalTicks, foundTiming) =
            (case List.find (\<lambda>anim. ticksPerSecond anim > 0) anims of
               Some anim \<Rightarrow> (ticksPerSecond anim, True)
             | None \<Rightarrow> (0, False));
          globalTicks = (if \<not> foundTiming then 4800 else globalTicks);
          mesh = (meshData parsedData)
                   \<lparr>globalTicksPerSecond := globalTicks, hasTimingInfo := foundTiming\<rparr>;
          hdr = (header parsedData)
                   \<lparr>hasAnimationTimingInfo := foundTiming, header_ticksPerSecond := globalTicks\<rparr>;
          mesh = mesh\<lparr>animations :=
                   map (\<lambda>anim. if ticksPerSecond anim \<le> 0 then anim\<lparr>ticksPerSecond := globalTicks\<rparr>
                               else anim) anims\<rparr>
      in (True, parsedData\<lparr>meshData := mesh, header := hdr\<rparr>))"

subsection \<open>Format-detecting facade: result retrieval (BinaryXFileParser.cpp)\<close>











subsection \<open>Validation of decompressed content (BinaryXFileParser.cpp)\<close>

text \<open>
  \<^verbatim>\<open>std::string::find\<close>: the position of the first occurrence of the needle, \<open>None\<close> for
  \<^verbatim>\<open>npos\<close>.
\<close>

fun str_find :: "'a list \<Rightarrow> 'a list \<Rightarrow> nat option" where
  "str_find [] needle = (if needle = [] then Some 0 else None)"
| "str_find (c # cs) needle =
     (if prefix needle (c # cs) then Some 0 else map_option Suc (str_find cs needle))"

text \<open>The bytes of \<^verbatim>\<open>"xof "\<close> and of \<^verbatim>\<open>"template"\<close>.\<close>

definition xof_bytes :: "8 word list" where
  "xof_bytes = [0x78, 0x6F, 0x66, 0x20]"

definition template_bytes :: "8 word list" where
  "template_bytes = [0x74, 0x65, 0x6D, 0x70, 0x6C, 0x61, 0x74, 0x65]"

definition ValidateDecompressedContent :: "8 word list \<Rightarrow> bool" where
  "ValidateDecompressedContent data =
     (if data = [] then False
      else
        let start = take (min 16 (length data)) data
        in if str_find start xof_bytes = Some 0 then True
           else if length data > 100 \<and>
                   str_find (take (min 100 (length data)) data) template_bytes \<noteq> None then True
           else if length data \<ge> 4 \<and>
                   ((data ! 0 = 0x78 \<and> data ! 1 = 0x6F \<and> data ! 2 = 0x66 \<and> data ! 3 = 0x20) \<or>
                    (data ! 0 = 0x78 \<and> data ! 1 = 0x6F \<and> data ! 2 = 0x66 \<and> data ! 3 = 0x20))
           then True
           else False)"

subsection \<open>Binary reader (BinaryXFileParser.cpp)\<close>

text \<open>
  The reader is a cursor over a byte buffer: the members \<^verbatim>\<open>data_\<close>, \<^verbatim>\<open>size_\<close>,
  \<^verbatim>\<open>position_\<close> and \<^verbatim>\<open>littleEndian_\<close> are the fields \<open>reader_data\<close>, \<open>reader_size\<close>,
  \<open>reader_position\<close> and \<open>littleEndian\<close>. Sizes and positions are \<^verbatim>\<open>size_t\<close>, a 64-bit word
  whose addition wraps around, as in the comparisons \<^verbatim>\<open>position_ + n > size_\<close> of the source.

  An operation returns its result together with the reader as the call leaves it, also when it
  throws. \<open>OutOfRange\<close> is the \<^verbatim>\<open>std::runtime_error\<close> of the reader ("Read beyond end of
  data", "Seek beyond end of data", "Skip beyond end of data"). \<open>OutsideBuffer\<close> marks an access
  to memory that is not part of \<^verbatim>\<open>data_\<close>, which C++ leaves undefined; it can only happen after
  a bounds comparison that wrapped around, or when \<^verbatim>\<open>size_\<close> is larger than the buffer.
  \<open>ReserveFailed\<close> is the exception of \<^verbatim>\<open>result.reserve(count)\<close> in the two sequence reads:
  \<^verbatim>\<open>std::length_error\<close> when \<open>count\<close> exceeds \<^verbatim>\<open>max_size()\<close>, \<^verbatim>\<open>std::bad_alloc\<close> when the
  memory cannot be had.
  A \<^verbatim>\<open>float\<close> or \<^verbatim>\<open>double\<close> read is the bit pattern of the integer read
  (\<^verbatim>\<open>memcpy\<close>), and a signed read is the two's complement value of the unsigned one.
\<close>

type_synonym size_t = "64 word"

type_synonym bytes = "8 word list"

datatype reader_error = OutOfRange | OutsideBuffer | ReserveFailed


record BinaryReader =
  reader_data :: bytes
  reader_size :: size_t
  reader_position :: size_t
  littleEndian :: bool

type_synonym 'a reading = "(reader_error + 'a) \<times> BinaryReader"

definition BinaryReader_new :: "bytes \<Rightarrow> size_t \<Rightarrow> bool \<Rightarrow> BinaryReader" where
  "BinaryReader_new buf n le =
     \<lparr>reader_data = buf, reader_size = n, reader_position = 0, littleEndian = le\<rparr>"

text \<open>\<^verbatim>\<open>data_[i]\<close> for a \<^verbatim>\<open>size_t\<close> index.\<close>

definition byte_at :: "BinaryReader \<Rightarrow> size_t \<Rightarrow> 8 word option" where
  "byte_at r i = (if unat i < length (reader_data r) then Some (reader_data r ! unat i) else None)"

text \<open>\<^verbatim>\<open>data_[i], data_[i + 1], ..., data_[i + n - 1]\<close>, each index computed in \<^verbatim>\<open>size_t\<close>.\<close>

definition bytes_at :: "BinaryReader \<Rightarrow> size_t \<Rightarrow> nat \<Rightarrow> bytes option" where
  "bytes_at r i n = those (map (\<lambda>k. byte_at r (i + of_nat k)) [0..<n])"

text \<open>The \<open>n\<close> bytes that start at the pointer \<^verbatim>\<open>data_ + i\<close>.\<close>

definition range_at :: "BinaryReader \<Rightarrow> size_t \<Rightarrow> size_t \<Rightarrow> bytes option" where
  "range_at r i n =
     (if unat i + unat n \<le> length (reader_data r)
      then Some (take (unat n) (drop (unat i) (reader_data r))) else None)"

definition ReadUInt8 :: "BinaryReader \<Rightarrow> (8 word) reading" where
  "ReadUInt8 r =
     (if reader_position r \<ge> reader_size r then (Inl OutOfRange, r)
      else (case byte_at r (reader_position r) of
              None \<Rightarrow> (Inl OutsideBuffer, r)
            | Some b \<Rightarrow> (Inr b, r\<lparr>reader_position := reader_position r + 1\<rparr>)))"

definition ReadUInt16 :: "BinaryReader \<Rightarrow> (16 word) reading" where
  "ReadUInt16 r =
     (if reader_position r + 2 > reader_size r then (Inl OutOfRange, r)
      else (case bytes_at r (reader_position r) 2 of
              None \<Rightarrow> (Inl OutsideBuffer, r)
            | Some d \<Rightarrow>
                (Inr (if littleEndian r
                      then ucast (d ! 0) OR push_bit 8 (ucast (d ! 1))
                      else push_bit 8 (ucast (d ! 0)) OR ucast (d ! 1)),
                 r\<lparr>reader_position := reader_position r + 2\<rparr>)))"

definition ReadUInt32 :: "BinaryReader \<Rightarrow> (32 word) reading" where
  "ReadUInt32 r =
     (if reader_position r + 4 > reader_size r then (Inl OutOfRange, r)
      else (case bytes_at r (reader_position r) 4 of
              None \<Rightarrow> (Inl OutsideBuffer, r)
            | Some d \<Rightarrow>
                (Inr (if littleEndian r
                      then ucast (d ! 0) OR push_bit 8 (ucast (d ! 1)) OR
                           push_bit 16 (ucast (d ! 2)) OR push_bit 24 (ucast (d ! 3))
                      else push_bit 24 (ucast (d ! 0)) OR push_bit 16 (ucast (d ! 1)) OR
                           push_bit 8 (ucast (d ! 2)) OR ucast (d ! 3)),
                 r\<lparr>reader_position := reader_position r + 4\<rparr>)))"

definition ReadUInt64 :: "BinaryReader \<Rightarrow> (64 word) reading" where
  "ReadUInt64 r =
     (if reader_position r + 8 > reader_size r then (Inl OutOfRange, r)
      else (case bytes_at r (reader_position r) 8 of
              None \<Rightarrow> (Inl OutsideBuffer, r)
            | Some d \<Rightarrow>
                (Inr (if littleEndian r
                      then ucast (d ! 0) OR push_bit 8 (ucast (d ! 1)) OR
                           push_bit 16 (ucast (d ! 2)) OR push_bit 24 (ucast (d ! 3)) OR
                           push_bit 32 (ucast (d ! 4)) OR push_bit 40 (ucast (d ! 5)) OR
                           push_bit 48 (ucast (d ! 6)) OR push_bit 56 (ucast (d ! 7))
                      else push_bit 56 (ucast (d ! 0)) OR push_bit 48 (ucast (d ! 1)) OR
                           push_bit 40 (ucast (d ! 2)) OR push_bit 32 (ucast (d ! 3)) OR
                           push_bit 24 (ucast (d ! 4)) OR push_bit 16 (ucast (d ! 5)) OR
                           push_bit 8 (ucast (d ! 6)) OR ucast (d ! 7)),
                 r\<lparr>reader_position := reader_position r + 8\<rparr>)))"

text \<open>
  The signed reads and the floating-point reads call the unsigned read of the same width and
  reinterpret its bits.
\<close>

definition ReadInt8 :: "BinaryReader \<Rightarrow> int reading" where
  "ReadInt8 r = (case ReadUInt8 r of (v, r') \<Rightarrow> (map_sum id sint v, r'))"

definition ReadInt16 :: "BinaryReader \<Rightarrow> int reading" where
  "ReadInt16 r = (case ReadUInt16 r of (v, r') \<Rightarrow> (map_sum id sint v, r'))"

definition ReadInt32 :: "BinaryReader \<Rightarrow> int reading" where
  "ReadInt32 r = (case ReadUInt32 r of (v, r') \<Rightarrow> (map_sum id sint v, r'))"

definition ReadInt64 :: "BinaryReader \<Rightarrow> int reading" where
  "ReadInt64 r = (case ReadUInt64 r of (v, r') \<Rightarrow> (map_sum id sint v, r'))"

definition ReadFloat :: "BinaryReader \<Rightarrow> (32 word) reading" where
  "ReadFloat r = ReadUInt32 r"

definition ReadDouble :: "BinaryReader \<Rightarrow> (64 word) reading" where
  "ReadDouble r = ReadUInt64 r"

definition ReadString :: "size_t \<Rightarrow> BinaryReader \<Rightarrow> bytes reading" where
  "ReadString len r =
     (if reader_position r + len > reader_size r then (Inl OutOfRange, r)
      else (case range_at r (reader_position r) len of
              None \<Rightarrow> (Inl OutsideBuffer, r)
            | Some s \<Rightarrow> (Inr s, r\<lparr>reader_position := reader_position r + len\<rparr>)))"

text \<open>
  The loop of \<^verbatim>\<open>ReadNullTerminatedString\<close>:
  \<^verbatim>\<open>while (position_ < size_ && data_[position_] != 0) result += data_[position_++]\<close>.
\<close>

function null_terminated_loop :: "BinaryReader \<Rightarrow> bytes \<Rightarrow> bytes reading" where
  "null_terminated_loop r result =
     (if reader_position r < reader_size r then
        (case byte_at r (reader_position r) of
           None \<Rightarrow> (Inl OutsideBuffer, r)
         | Some b \<Rightarrow>
             if b \<noteq> 0
             then null_terminated_loop (r\<lparr>reader_position := reader_position r + 1\<rparr>) (result @ [b])
             else (Inr result, r))
      else (Inr result, r))"
  by pat_completeness auto
termination
proof (relation "measure (\<lambda>(r, result). unat (reader_size r) - unat (reader_position r))")
  show "wf (measure (\<lambda>(r, result). unat (reader_size r) - unat (reader_position r)))"
    by simp
next
  fix r :: BinaryReader and result :: bytes and b :: "8 word"
  assume less: "reader_position r < reader_size r"
  then have "unat (reader_position r + 1) = unat (reader_position r) + 1"
    by unat_arith
  with less show "((r\<lparr>reader_position := reader_position r + 1\<rparr>, result @ [b]), (r, result))
      \<in> measure (\<lambda>(r, result). unat (reader_size r) - unat (reader_position r))"
    by (simp add: word_less_nat_alt)
qed

definition ReadNullTerminatedString :: "BinaryReader \<Rightarrow> bytes reading" where
  "ReadNullTerminatedString r =
     (case null_terminated_loop r [] of
        (Inl e, r') \<Rightarrow> (Inl e, r')
      | (Inr result, r') \<Rightarrow>
          (Inr result,
           if reader_position r' < reader_size r'
           then r'\<lparr>reader_position := reader_position r' + 1\<rparr> else r'))"

definition ReadLengthPrefixedString :: "BinaryReader \<Rightarrow> bytes reading" where
  "ReadLengthPrefixedString r =
     (case ReadUInt32 r of
        (Inl e, r') \<Rightarrow> (Inl e, r')
      | (Inr len, r') \<Rightarrow> ReadString (ucast len) r')"

definition ReadBytes :: "size_t \<Rightarrow> BinaryReader \<Rightarrow> bytes reading" where
  "ReadBytes count r =
     (if reader_position r + count > reader_size r then (Inl OutOfRange, r)
      else (case range_at r (reader_position r) count of
              None \<Rightarrow> (Inl OutsideBuffer, r)
            | Some s \<Rightarrow> (Inr s, r\<lparr>reader_position := reader_position r + count\<rparr>)))"

text \<open>
  \<^verbatim>\<open>ReadFloatArray\<close> and \<^verbatim>\<open>ReadUInt32Array\<close> start with \<^verbatim>\<open>result.reserve(count)\<close>, before
  any element is read. Which counts can be reserved is a matter of the library (\<^verbatim>\<open>max_size()\<close>)
  and of the machine (the memory at hand), not of the repository: it is the parameter
  \<open>reservable\<close> of the two reads, where \<open>reservable n\<close> says that \<^verbatim>\<open>reserve(n)\<close> returns.

  In the loops \<open>n\<close> iterations are left and \<open>result\<close> holds the values pushed so far. An
  exception of the element read leaves the loop.
\<close>

fun ReadFloatArray_loop :: "nat \<Rightarrow> (32 word) list \<Rightarrow> BinaryReader \<Rightarrow> ((32 word) list) reading" where
  "ReadFloatArray_loop 0 result r = (Inr result, r)"
| "ReadFloatArray_loop (Suc n) result r =
     (case ReadFloat r of
        (Inl e, r') \<Rightarrow> (Inl e, r')
      | (Inr v, r') \<Rightarrow> ReadFloatArray_loop n (result @ [v]) r')"

definition ReadFloatArray ::
  "(nat \<Rightarrow> bool) \<Rightarrow> size_t \<Rightarrow> BinaryReader \<Rightarrow> ((32 word) list) reading" where
  "ReadFloatArray reservable count r =
     (if \<not> reservable (unat count) then (Inl ReserveFailed, r)
      else ReadFloatArray_loop (unat count) [] r)"

fun ReadUInt32Array_loop :: "nat \<Rightarrow> (32 word) list \<Rightarrow> BinaryReader \<Rightarrow> ((32 word) list) reading" where
  "ReadUInt32Array_loop 0 result r = (Inr result, r)"
| "ReadUInt32Array_loop (Suc n) result r =
     (case ReadUInt32 r of
        (Inl e, r') \<Rightarrow> (Inl e, r')
      | (Inr v, r') \<Rightarrow> ReadUInt32Array_loop n (result @ [v]) r')"

definition ReadUInt32Array ::
  "(nat \<Rightarrow> bool) \<Rightarrow> size_t \<Rightarrow> BinaryReader \<Rightarrow> ((32 word) list) reading" where
  "ReadUInt32Array reservable count r =
     (if \<not> reservable (unat count) then (Inl ReserveFailed, r)
      else ReadUInt32Array_loop (unat count) [] r)"

text \<open>
  A library and machine for the concrete inputs: \<^verbatim>\<open>max_size()\<close> of a vector of 4-byte elements
  is \<open>2^61 - 1\<close> (\<^verbatim>\<open>PTRDIFF_MAX / 4\<close>, as in libstdc++ on a 64-bit machine), and every count up
  to it can be allocated.
\<close>

definition within_max_size :: "nat \<Rightarrow> bool" where
  "within_max_size n \<longleftrightarrow> n \<le> 2305843009213693951"

definition Seek :: "size_t \<Rightarrow> BinaryReader \<Rightarrow> unit reading" where
  "Seek pos r =
     (if pos > reader_size r then (Inl OutOfRange, r)
      else (Inr (), r\<lparr>reader_position := pos\<rparr>))"

definition Skip :: "size_t \<Rightarrow> BinaryReader \<Rightarrow> unit reading" where
  "Skip n r =
     (if reader_position r + n > reader_size r then (Inl OutOfRange, r)
      else (Inr (), r\<lparr>reader_position := reader_position r + n\<rparr>))"

subsection \<open>Line helpers of the text parser (XFileParser.cpp)\<close>

text \<open>
  String positions and lengths are \<^verbatim>\<open>size_t\<close> values (strings are shorter than \<open>2^64\<close>); the
  two subtractions of the source that can wrap are written with \<open>size_t_sub\<close>, and
  \<open>size_t_add\<close> is the wrapping addition. \<^verbatim>\<open>npos\<close> is \<open>2^64 - 1\<close>.

  \<open>CharOutsideString\<close> marks \<^verbatim>\<open>front()\<close> or \<^verbatim>\<open>back()\<close> of an empty string, an access outside
  the string that C++ leaves undefined; \<open>SubstrOutOfRange\<close> is the \<^verbatim>\<open>std::out_of_range\<close> that
  \<^verbatim>\<open>substr\<close> throws when its position is beyond the string.
\<close>

datatype string_error = CharOutsideString | SubstrOutOfRange

definition npos :: nat where
  "npos = 2 ^ 64 - 1"

definition size_t_sub :: "nat \<Rightarrow> nat \<Rightarrow> nat" where
  "size_t_sub a b = (a + 2 ^ 64 - b) mod 2 ^ 64"

definition size_t_add :: "nat \<Rightarrow> nat \<Rightarrow> nat" where
  "size_t_add a b = (a + b) mod 2 ^ 64"

definition string_front :: "string \<Rightarrow> char option" where
  "string_front s = (case s of [] \<Rightarrow> None | c # cs \<Rightarrow> Some c)"

definition string_back :: "string \<Rightarrow> char option" where
  "string_back s = (if s = [] then None else Some (last s))"

definition substr :: "string \<Rightarrow> nat \<Rightarrow> nat \<Rightarrow> string_error + string" where
  "substr s pos n = (if pos > length s then Inl SubstrOutOfRange else Inr (take n (drop pos s)))"

text \<open>The characters of \<^verbatim>\<open>" \t\n\r"\<close>.\<close>

definition trim_chars :: string where
  "trim_chars = [CHR '' '', CHR 0x09, CHR 0x0A, CHR 0x0D]"

fun find_first_not_of :: "string \<Rightarrow> string \<Rightarrow> nat option" where
  "find_first_not_of [] chars = None"
| "find_first_not_of (c # cs) chars =
     (if List.member chars c then map_option Suc (find_first_not_of cs chars) else Some 0)"

definition find_last_not_of :: "string \<Rightarrow> string \<Rightarrow> nat option" where
  "find_last_not_of s chars =
     (case find_first_not_of (rev s) chars of
        None \<Rightarrow> None
      | Some i \<Rightarrow> Some (length s - 1 - i))"

definition TrimWhitespace :: "string \<Rightarrow> string_error + string" where
  "TrimWhitespace str =
     (case find_first_not_of str trim_chars of
        None \<Rightarrow> Inr []
      | Some start \<Rightarrow>
          (let end = (case find_last_not_of str trim_chars of None \<Rightarrow> npos | Some e \<Rightarrow> e)
           in substr str start (size_t_add (size_t_sub end start) 1)))"

text \<open>
  \<^verbatim>\<open>ParseStringLine\<close>. The condition \<^verbatim>\<open>cleaned.front() == '"' && cleaned.back() == ';'\<close>
  reads the first character, and the last one when the first is a quote; the \<^verbatim>\<open>else if\<close>
  reads the first character again.
\<close>

definition ParseStringLine :: "string \<Rightarrow> string_error + string" where
  "ParseStringLine line =
     (case TrimWhitespace line of
        Inl e \<Rightarrow> Inl e
      | Inr cleaned \<Rightarrow>
          (case string_front cleaned of
             None \<Rightarrow> Inl CharOutsideString
           | Some f \<Rightarrow>
               if f = CHR 0x22 then
                 (case string_back cleaned of
                    None \<Rightarrow> Inl CharOutsideString
                  | Some b \<Rightarrow>
                      if b = CHR '';'' then substr cleaned 1 (size_t_sub (length cleaned) 3)
                      else substr cleaned 1 (size_t_sub (length cleaned) 2))
               else Inr cleaned))"

text \<open>
  \<^verbatim>\<open>XFileUtils::ParseInt\<close> is \<^verbatim>\<open>std::stoi\<close> with every exception caught: leading white space,
  an optional sign, then decimal digits; what follows the digits is ignored. \<open>None\<close> is
  \<^verbatim>\<open>success = false\<close>: no digit, or a value outside the range of \<^verbatim>\<open>int\<close>.
\<close>

definition isspace :: "char \<Rightarrow> bool" where
  "isspace c \<longleftrightarrow> List.member [CHR '' '', CHR 0x09, CHR 0x0A, CHR 0x0B, CHR 0x0C, CHR 0x0D] c"

definition isdigit :: "char \<Rightarrow> bool" where
  "isdigit c \<longleftrightarrow> (48 :: nat) \<le> of_char c \<and> of_char c \<le> (57 :: nat)"

definition digits_value :: "string \<Rightarrow> int" where
  "digits_value ds = foldl (\<lambda>acc c. acc * 10 + (of_char c - 48)) 0 ds"

definition ParseInt :: "string \<Rightarrow> int option" where
  "ParseInt str =
     (let s = dropWhile isspace str;
          (negative, s) =
            (case s of
               c # cs \<Rightarrow> if c = CHR ''-'' then (True, cs) else if c = CHR ''+'' then (False, cs)
                         else (False, s)
             | [] \<Rightarrow> (False, s));
          ds = takeWhile isdigit s
      in if ds = [] then None
         else
           let v = (if negative then - digits_value ds else digits_value ds)
           in if - 2147483648 \<le> v \<and> v \<le> 2147483647 then Some v else None)"

text \<open>
  The tokens that the loop
  \<^verbatim>\<open>while (std::getline(ss, token, ';') || std::getline(ss, token, ','))\<close> sees. The first
  \<^verbatim>\<open>getline\<close> fails only at the end of the stream; the stream is then in a failed state and the
  second \<^verbatim>\<open>getline\<close> fails too. So the tokens are the pieces between semicolons, and there is
  no token after a final semicolon. \<open>cur\<close> holds the characters of the token being read.
\<close>

fun getline_tokens :: "char \<Rightarrow> string \<Rightarrow> string \<Rightarrow> string list" where
  "getline_tokens delim cur [] = (if cur = [] then [] else [cur])"
| "getline_tokens delim cur (c # cs) =
     (if c = delim then cur # getline_tokens delim [] cs
      else getline_tokens delim (cur @ [c]) cs)"

fun ParseIntArray_loop :: "string list \<Rightarrow> int list \<Rightarrow> string_error + int list" where
  "ParseIntArray_loop [] result = Inr result"
| "ParseIntArray_loop (token # rest) result =
     (case TrimWhitespace token of
        Inl e \<Rightarrow> Inl e
      | Inr token \<Rightarrow>
          if token \<noteq> [] then
            (case ParseInt token of
               Some v \<Rightarrow> ParseIntArray_loop rest (result @ [v])
             | None \<Rightarrow> ParseIntArray_loop rest result)
          else ParseIntArray_loop rest result)"

definition ParseIntArray :: "string \<Rightarrow> string_error + int list" where
  "ParseIntArray data =
     (case TrimWhitespace data of
        Inl e \<Rightarrow> Inl e
      | Inr cleanData \<Rightarrow>
          (let cleanData =
                 (if cleanData \<noteq> [] \<and> (last cleanData = CHR '';'' \<or> last cleanData = CHR '','')
                  then butlast cleanData else cleanData)
           in ParseIntArray_loop (getline_tokens (CHR '';'') [] cleanData) []))"

definition ParseFaceLine :: "string \<Rightarrow> string_error + XFace" where
  "ParseFaceLine line =
     (let face = XFace_new
      in case ParseIntArray line of
           Inl e \<Rightarrow> Inl e
         | Inr values \<Rightarrow>
             if length values \<ge> 4 then
               (if values ! 0 = 3 \<and> length values \<ge> 4
                then Inr (face\<lparr>indices := (values ! 1, values ! 2, values ! 3)\<rparr>)
                else Inr face)
             else Inr face)"

subsection \<open>Inputs of the test suite and other concrete inputs\<close>

text \<open>
  \<^verbatim>\<open>TestKeyframeTimeConversion\<close> builds three keyframes at the times \<open>i * 1600\<close> and converts
  them from 4800 ticks per second to 30; it expects the second time to become
  \<open>(1600 / 4800) * 30\<close>, that is \<open>10\<close>.
\<close>

definition test_keyframes :: "XKeyframe list" where
  "test_keyframes =
     [XKeyframe_new\<lparr>time := 0\<rparr>, XKeyframe_new\<lparr>time := 1600\<rparr>, XKeyframe_new\<lparr>time := 3200\<rparr>]"

text \<open>A mesh of one vertex, no material, and one face whose material index is \<open>-2\<close>.\<close>

definition mesh_with_material_minus_2 :: XMeshData where
  "mesh_with_material_minus_2 =
     XMeshData_new\<lparr>vertices := [XVertex_new], faces := [XFace_new\<lparr>materialIndex := - 2\<rparr>]\<rparr>"






subsection \<open>Bounds of the binary reader\<close>

text \<open>
  An operation that asks for \<open>n\<close> bytes would cross the end of the buffer when the position
  plus \<open>n\<close> exceeds the size. The comparison of the source computes the sum in \<^verbatim>\<open>size_t\<close>;
  \<open>no_wrap\<close> says that the sum is representable, so that the comparison sees it. A reader is
  well formed when its size does not exceed its buffer, the position is within the size, and the
  size is below \<open>2^63\<close> (no object is larger than \<^verbatim>\<open>PTRDIFF_MAX\<close>).
\<close>

definition would_cross :: "BinaryReader \<Rightarrow> nat \<Rightarrow> bool" where
  "would_cross r n \<longleftrightarrow> unat (reader_position r) + n > unat (reader_size r)"

definition no_wrap :: "BinaryReader \<Rightarrow> nat \<Rightarrow> bool" where
  "no_wrap r n \<longleftrightarrow> unat (reader_position r) + n < 2 ^ 64"

definition wf_reader :: "BinaryReader \<Rightarrow> bool" where
  "wf_reader r \<longleftrightarrow>
     unat (reader_size r) \<le> length (reader_data r) \<and>
     reader_position r \<le> reader_size r \<and>
     unat (reader_size r) < 2 ^ 63"

text \<open>
  Four readers: one whose cursor is at the end of a 3-byte buffer; one that holds the length
  prefix 5 followed by a single byte; one of 9 bytes, that is two 32-bit values and one byte
  more; one of two non-zero bytes, with no terminator.
\<close>

definition reader_at_end :: BinaryReader where
  "reader_at_end = (BinaryReader_new [1, 2, 3] 3 True)\<lparr>reader_position := 3\<rparr>"

definition reader_short_string :: BinaryReader where
  "reader_short_string = BinaryReader_new [5, 0, 0, 0, 1] 5 True"

definition reader_two_words :: BinaryReader where
  "reader_two_words = BinaryReader_new [5, 0, 0, 0, 1, 2, 3, 4, 7] 9 True"

definition reader_no_terminator :: BinaryReader where
  "reader_no_terminator = BinaryReader_new [5, 1] 2 True"

section \<open>Properties\<close>

subsection \<open>Keyframe-interval analysis\<close>

lemma fps_loop_result: "fps_loop m fs = None \<or> fps_loop m fs = Some 4800"
  by (induction fs) (simp_all add: Let_def)

text \<open>
  C9. For every list of keyframe times, \<^verbatim>\<open>AnalyzeKeyframePattern\<close> returns 4800: with fewer
  than two times it returns the 4800 default, and otherwise both the median-interval match and
  the fall-through return 4800, so no other value is ever produced.
\<close>

theorem AnalyzeKeyframePattern_always_4800:
  "AnalyzeKeyframePattern keyframeTimes = 4800"
proof (cases "length keyframeTimes < 2")
  case True
  then show ?thesis by (simp add: AnalyzeKeyframePattern_def)
next
  case False
  from fps_loop_result [of "CalculateMedian (keyframe_intervals keyframeTimes)" "[24, 25, 30, 60]"]
  show ?thesis
    unfolding AnalyzeKeyframePattern_def Let_def
    by (auto split: option.splits)
qed

subsection \<open>Keyframe time conversion\<close>

text \<open>
  C1. The claim is that \<^verbatim>\<open>ConvertKeyframeTiming\<close> from 4800 to 30 ticks per second maps a time
  \<open>t\<close> to \<open>(t / 4800) * 30\<close>, so that 1600 becomes 10, as \<^verbatim>\<open>TestKeyframeTimeConversion\<close>
  expects. The code multiplies by \<open>original / target\<close>: every time is multiplied by 160, and on
  the input of the test the times become 0, 256000 and 512000.
\<close>

theorem ConvertKeyframeTiming_4800_to_30:
  "map time (ConvertKeyframeTiming originalKeyframes 4800 30) =
     map (\<lambda>t. t * 160) (map time originalKeyframes) \<and>
   map time (ConvertKeyframeTiming test_keyframes 4800 30) = [0, 256000, 512000] \<and>
   time (ConvertKeyframeTiming test_keyframes 4800 30 ! 1) \<noteq> 1600 / 4800 * 30"
  by (simp add: ConvertKeyframeTiming_def test_keyframes_def XKeyframe_new_def)

subsection \<open>Result retrieval of the facade\<close>



subsection \<open>Mesh validation\<close>

text \<open>
  What the code reports: a material-index error for face \<open>i\<close> exactly when the index is at least
  the number of materials.
\<close>

lemma face_errors_material:
  "InvalidMaterialIndex i mi \<in> set (face_errors maxIndex materialCount j face) \<longleftrightarrow>
     i = j \<and> mi = materialIndex face \<and> materialIndex face \<ge> int materialCount"
  by (auto simp: face_errors_def)

lemma material_index_reported_iff:
  assumes "vertices m \<noteq> []"
  shows "InvalidMaterialIndex i mi \<in> set (GetValidationErrors m) \<longleftrightarrow>
     i < length (faces m) \<and> mi = materialIndex (faces m ! i) \<and>
     materialIndex (faces m ! i) \<ge> int (length (materials m))"
proof -
  have other: "InvalidMaterialIndex i mi \<notin> set (bone_errors n j b)"
    "InvalidMaterialIndex i mi \<notin> set (vertex_errors n j v)"
    "InvalidMaterialIndex i mi \<notin> set (animation_errors bs j a)" for n j b v bs a
    by (auto simp: bone_errors_def vertex_errors_def animation_errors_def Let_def
        split: option.splits if_splits)
  have "InvalidMaterialIndex i mi \<in> set (GetValidationErrors m) \<longleftrightarrow>
      (\<exists>(j, face) \<in> set (enumerate 0 (faces m)).
         InvalidMaterialIndex i mi \<in> set (face_errors (int (length (vertices m)) - 1) (length (materials m)) j face))"
    using assms other by (auto simp: GetValidationErrors_def Let_def)
  also have "\<dots> \<longleftrightarrow> i < length (faces m) \<and> mi = materialIndex (faces m ! i) \<and>
     materialIndex (faces m ! i) \<ge> int (length (materials m))"
    by (auto simp: face_errors_material in_set_enumerate_eq)
  finally show ?thesis .
qed

text \<open>
  C6. The claim is that the validation reports every face whose material index is neither \<open>-1\<close>
  nor within \<open>[0, materialCount)\<close>, in particular every negative index other than \<open>-1\<close>. The
  code compares the index with the number of materials only: a mesh with one vertex and a face
  of material index \<open>-2\<close> has no validation error at all.
\<close>

theorem GetValidationErrors_material_minus_2:
  "GetValidationErrors mesh_with_material_minus_2 = [] \<and> IsValid mesh_with_material_minus_2"
  by (simp add: IsValid_def GetValidationErrors_def mesh_with_material_minus_2_def XMeshData_new_def
      XFace_new_def face_errors_def indices_list_def)

subsection \<open>Timing extraction\<close>

text \<open>The flag is set exactly when some animation has a positive tick rate.\<close>

lemma ExtractTimingInformation_hasTimingInfo:
  "hasTimingInfo (meshData (snd (ExtractTimingInformation d))) \<longleftrightarrow>
     list_ex (\<lambda>anim. ticksPerSecond anim > 0) (animations (meshData d))"
proof (cases "List.find (\<lambda>anim. ticksPerSecond anim > 0) (animations (meshData d))")
  case None
  then have "\<not> list_ex (\<lambda>anim. ticksPerSecond anim > 0) (animations (meshData d))"
    by (simp add: list_ex_iff find_None_iff)
  with None show ?thesis
    by (simp add: ExtractTimingInformation_def Let_def)
next
  case (Some anim)
  then have "List.find (\<lambda>anim. ticksPerSecond anim > 0) (animations (meshData d)) \<noteq> None"
    by simp
  then have "list_ex (\<lambda>anim. ticksPerSecond anim > 0) (animations (meshData d))"
    by (auto simp: list_ex_iff find_None_iff)
  with Some show ?thesis
    by (simp add: ExtractTimingInformation_def Let_def)
qed




subsection \<open>Validation of decompressed content\<close>

lemma str_find_Some_0: "str_find hay needle = Some 0 \<longleftrightarrow> prefix needle hay"
  by (cases hay) auto

lemma str_find_None: "str_find hay needle = None \<longleftrightarrow> \<not> sublist needle hay"
  by (induction hay) (auto simp: sublist_Cons_right)

lemma take_4_xof_length: "take 4 data = xof_bytes \<Longrightarrow> 4 \<le> length data"
proof -
  assume "take 4 data = xof_bytes"
  then have "length (take 4 data) = length xof_bytes" by simp
  then show ?thesis by (simp add: xof_bytes_def)
qed

lemma prefix_xof_take:
  "prefix xof_bytes (take (min 16 (length data)) data) \<longleftrightarrow> take 4 data = xof_bytes"
proof
  assume "prefix xof_bytes (take (min 16 (length data)) data)"
  then have "prefix xof_bytes data"
    by (simp add: prefix_def) (metis append_take_drop_id append.assoc)
  then obtain zs where "data = xof_bytes @ zs"
    by (auto simp: prefix_def)
  then show "take 4 data = xof_bytes"
    by (simp add: xof_bytes_def)
next
  assume eq: "take 4 data = xof_bytes"
  then have "4 \<le> length data" by (rule take_4_xof_length)
  then have "take 4 (take (min 16 (length data)) data) = take 4 data"
    by (simp add: min_def)
  with eq show "prefix xof_bytes (take (min 16 (length data)) data)"
    by (metis take_is_prefix)
qed

lemma signature_bytes:
  assumes "4 \<le> length data"
  shows "(data ! 0 = 0x78 \<and> data ! 1 = 0x6F \<and> data ! 2 = 0x66 \<and> data ! 3 = 0x20) \<longleftrightarrow>
         take 4 data = xof_bytes"
proof -
  from assms obtain a b c d rest where "data = a # b # c # d # rest"
    by (cases data; cases "tl data"; cases "tl (tl data)"; cases "tl (tl (tl data))") auto
  then show ?thesis by (auto simp: xof_bytes_def)
qed


lemma start_has_signature:
  "str_find (take (min 16 (length data)) data) xof_bytes = Some 0 \<longleftrightarrow> take 4 data = xof_bytes"
  by (simp only: str_find_Some_0 prefix_xof_take)

text \<open>
  C5 (as amended). For every byte buffer, \<^verbatim>\<open>ValidateDecompressedContent\<close> accepts the buffer
  exactly when it is non-empty and either its first 4 bytes are \<^verbatim>\<open>xof \<close>
  (0x78 0x6F 0x66 0x20), or it is longer than 100 bytes and its first 100 bytes contain
  \<^verbatim>\<open>template\<close>. A buffer of at most 100 bytes is accepted for its signature only.
\<close>

theorem ValidateDecompressedContent_iff:
  "ValidateDecompressedContent data \<longleftrightarrow>
     data \<noteq> [] \<and>
     (take 4 data = xof_bytes \<or> (length data > 100 \<and> sublist template_bytes (take 100 data)))"
proof (cases "take 4 data = xof_bytes")
  case True
  then have "data \<noteq> []" by (auto simp: xof_bytes_def)
  with True show ?thesis
    unfolding ValidateDecompressedContent_def Let_def start_has_signature by simp
next
  case False
  have sig: "\<not> (4 \<le> length data \<and> data ! 0 = 0x78 \<and> data ! 1 = 0x6F \<and> data ! 2 = 0x66 \<and> data ! 3 = 0x20)"
    using False signature_bytes [of data] by blast
  show ?thesis
  proof (cases "length data > 100")
    case True
    then have "min 100 (length data) = 100" "data \<noteq> []" by auto
    with True False sig show ?thesis
      unfolding ValidateDecompressedContent_def Let_def start_has_signature
      by (auto simp add: str_find_None)
  next
    case long: False
    with False sig show ?thesis
      unfolding ValidateDecompressedContent_def Let_def start_has_signature by auto
  qed
qed

text \<open>
  C5 as stated also accepts a buffer of fewer than 100 bytes that contains \<^verbatim>\<open>template\<close>.
  The code looks for \<^verbatim>\<open>template\<close> only under the guard \<^verbatim>\<open>data.size() > 100\<close>: the 8-byte
  buffer \<^verbatim>\<open>template\<close> is rejected.
\<close>

theorem ValidateDecompressedContent_short_template:
  "\<not> ValidateDecompressedContent template_bytes \<and> template_bytes \<noteq> [] \<and>
   sublist template_bytes (take 100 template_bytes)"
  by (simp add: ValidateDecompressedContent_def template_bytes_def xof_bytes_def)

subsection \<open>Quoted strings\<close>

lemma find_first_not_of_less: "find_first_not_of s chars = Some i \<Longrightarrow> i < length s"
  by (induction s arbitrary: i) (auto split: if_splits)

lemma TrimWhitespace_total: "\<exists>t. TrimWhitespace s = Inr t"
proof (cases "find_first_not_of s trim_chars")
  case None
  then show ?thesis by (simp add: TrimWhitespace_def)
next
  case (Some start)
  then have "start < length s" by (rule find_first_not_of_less)
  with Some show ?thesis by (simp add: TrimWhitespace_def substr_def Let_def)
qed

lemma ParseStringLine_empty:
  "TrimWhitespace line = Inr [] \<Longrightarrow> ParseStringLine line = Inl CharOutsideString"
  by (simp add: ParseStringLine_def string_front_def)

lemma ParseStringLine_nonempty:
  assumes "TrimWhitespace line = Inr cleaned" "cleaned \<noteq> []"
  shows "string_front cleaned \<noteq> None \<and> string_back cleaned \<noteq> None \<and>
         (\<exists>s. ParseStringLine line = Inr s)"
proof -
  from assms(2) have sub: "substr cleaned (Suc 0) n = Inr (take n (drop (Suc 0) cleaned))" for n
    by (cases cleaned) (auto simp: substr_def)
  from assms(2) have first_char: "string_front cleaned = Some (hd cleaned)"
    by (cases cleaned) (auto simp: string_front_def)
  from assms(2) have last_char: "string_back cleaned = Some (last cleaned)"
    by (simp add: string_back_def)
  show ?thesis
    by (simp add: ParseStringLine_def assms(1) first_char last_char sub)
qed

text \<open>
  C8. Every line has a trimmed form. There are lines whose trimmed form is empty, and for each of
  them \<^verbatim>\<open>ParseStringLine\<close> reads the first character of an empty string: the access is
  outside the string. For every line whose trimmed form is not empty, the first and the last
  character exist, and \<^verbatim>\<open>ParseStringLine\<close> returns a string.
\<close>

theorem ParseStringLine_front_back:
  "(\<exists>t. TrimWhitespace line = Inr t) \<and>
   (\<exists>l. TrimWhitespace l = Inr [] \<and> ParseStringLine l = Inl CharOutsideString) \<and>
   (TrimWhitespace line = Inr [] \<longrightarrow>
      string_front [] = None \<and> ParseStringLine line = Inl CharOutsideString) \<and>
   (TrimWhitespace line = Inr cleaned \<and> cleaned \<noteq> [] \<longrightarrow>
      string_front cleaned \<noteq> None \<and> string_back cleaned \<noteq> None \<and>
      (\<exists>s. ParseStringLine line = Inr s))"
proof -
  have "TrimWhitespace [] = Inr [] \<and> ParseStringLine [] = Inl CharOutsideString"
    by (simp add: TrimWhitespace_def ParseStringLine_def string_front_def)
  then have "\<exists>l. TrimWhitespace l = Inr [] \<and> ParseStringLine l = Inl CharOutsideString" ..
  moreover have "string_front [] = None" by (simp add: string_front_def)
  ultimately show ?thesis
    using TrimWhitespace_total [of line] ParseStringLine_empty [of line]
      ParseStringLine_nonempty [of line cleaned]
    by blast
qed

lemma TrimWhitespace_spaces: "TrimWhitespace ''   '' = Inr []"
  by (simp add: TrimWhitespace_def trim_chars_def)

lemma TrimWhitespace_texture:
  "TrimWhitespace [CHR '' '', CHR 0x22, CHR ''a'', CHR 0x22, CHR '';'', CHR '' ''] =
     Inr [CHR 0x22, CHR ''a'', CHR 0x22, CHR '';'']"
  by (simp add: TrimWhitespace_def trim_chars_def find_last_not_of_def substr_def
      size_t_sub_def size_t_add_def Let_def)

theorem ParseStringLine_front_back_witness:
  "TrimWhitespace ''   '' = Inr [] \<and> ParseStringLine ''   '' = Inl CharOutsideString \<and>
   TrimWhitespace [CHR '' '', CHR 0x22, CHR ''a'', CHR 0x22, CHR '';'', CHR '' ''] =
     Inr [CHR 0x22, CHR ''a'', CHR 0x22, CHR '';''] \<and>
   (\<exists>s. ParseStringLine [CHR '' '', CHR 0x22, CHR ''a'', CHR 0x22, CHR '';'', CHR '' ''] = Inr s)"
  using ParseStringLine_front_back [of "''   ''"]
    ParseStringLine_front_back [of "[CHR '' '', CHR 0x22, CHR ''a'', CHR 0x22, CHR '';'', CHR '' '']"
      "[CHR 0x22, CHR ''a'', CHR 0x22, CHR '';'']"]
    TrimWhitespace_spaces TrimWhitespace_texture
  by simp

subsection \<open>Face lines\<close>

lemma ParseIntArray_loop_total: "\<exists>vs. ParseIntArray_loop tokens result = Inr vs"
proof (induction tokens arbitrary: result)
  case Nil
  show ?case by simp
next
  case (Cons token rest)
  obtain t where "TrimWhitespace token = Inr t" using TrimWhitespace_total by blast
  with Cons show ?case by (simp split: option.splits)
qed

lemma ParseIntArray_total: "\<exists>vs. ParseIntArray data = Inr vs"
proof -
  obtain t where "TrimWhitespace data = Inr t" using TrimWhitespace_total by blast
  then show ?thesis
    using ParseIntArray_loop_total by (simp add: ParseIntArray_def Let_def)
qed

text \<open>
  C10. For every input line, \<^verbatim>\<open>ParseFaceLine\<close> returns a face whose \<^verbatim>\<open>vertexIndices\<close> is
  still the \<open>{0, 0, 0}\<close> of the constructor: the parser writes the array \<^verbatim>\<open>indices\<close> only. So
  the two index representations of a parsed face agree only when the parsed indices are all
  zero.
\<close>

theorem ParseFaceLine_vertexIndices:
  "\<exists>face. ParseFaceLine line = Inr face \<and> vertexIndices face = [0, 0, 0] \<and>
     (indices_list face = vertexIndices face \<longleftrightarrow> indices face = (0, 0, 0))"
proof -
  obtain vs where "ParseIntArray line = Inr vs" using ParseIntArray_total by blast
  then show ?thesis
    by (auto simp: ParseFaceLine_def Let_def XFace_new_def indices_list_def)
qed

subsection \<open>Binary reader: reads that would cross the end of the buffer\<close>

lemma check_crosses:
  fixes p n s :: "64 word"
  assumes "unat p + unat n < 2 ^ 64"
  shows "s < p + n \<longleftrightarrow> unat s < unat p + unat n"
proof -
  from assms have "unat (p + n) = unat p + unat n"
    by (simp add: unat_add_lem [THEN iffD1])
  then show ?thesis by (simp add: word_less_nat_alt)
qed

lemma unat_numerals [simp]: "unat (2 :: 64 word) = 2" "unat (4 :: 64 word) = 4" "unat (8 :: 64 word) = 8"
  by simp_all

lemma ReadUInt8_fails: "would_cross r 1 \<Longrightarrow> ReadUInt8 r = (Inl OutOfRange, r)"
  by (simp add: ReadUInt8_def would_cross_def word_le_nat_alt)

lemma ReadUInt16_fails: "would_cross r 2 \<Longrightarrow> no_wrap r 2 \<Longrightarrow> ReadUInt16 r = (Inl OutOfRange, r)"
  using check_crosses [of "reader_position r" 2 "reader_size r"]
  by (simp add: ReadUInt16_def would_cross_def no_wrap_def)

lemma ReadUInt32_fails: "would_cross r 4 \<Longrightarrow> no_wrap r 4 \<Longrightarrow> ReadUInt32 r = (Inl OutOfRange, r)"
  using check_crosses [of "reader_position r" 4 "reader_size r"]
  by (simp add: ReadUInt32_def would_cross_def no_wrap_def)

lemma ReadUInt64_fails: "would_cross r 8 \<Longrightarrow> no_wrap r 8 \<Longrightarrow> ReadUInt64 r = (Inl OutOfRange, r)"
  using check_crosses [of "reader_position r" 8 "reader_size r"]
  by (simp add: ReadUInt64_def would_cross_def no_wrap_def)

lemma ReadString_fails:
  "would_cross r (unat n) \<Longrightarrow> no_wrap r (unat n) \<Longrightarrow> ReadString n r = (Inl OutOfRange, r)"
  using check_crosses [of "reader_position r" n "reader_size r"]
  by (simp add: ReadString_def would_cross_def no_wrap_def)

lemma ReadBytes_fails:
  "would_cross r (unat n) \<Longrightarrow> no_wrap r (unat n) \<Longrightarrow> ReadBytes n r = (Inl OutOfRange, r)"
  using check_crosses [of "reader_position r" n "reader_size r"]
  by (simp add: ReadBytes_def would_cross_def no_wrap_def)

lemma Skip_fails:
  "would_cross r (unat n) \<Longrightarrow> no_wrap r (unat n) \<Longrightarrow> Skip n r = (Inl OutOfRange, r)"
  using check_crosses [of "reader_position r" n "reader_size r"]
  by (simp add: Skip_def would_cross_def no_wrap_def)

lemma Seek_fails: "reader_size r < p \<Longrightarrow> Seek p r = (Inl OutOfRange, r)"
  by (simp add: Seek_def)

lemma ReadUInt32_position:
  "ReadUInt32 r = (Inr v, r') \<Longrightarrow> r' = r\<lparr>reader_position := reader_position r + 4\<rparr>"
  by (auto simp: ReadUInt32_def split: if_splits option.splits)

lemma ReadLengthPrefixedString_fails_after_length:
  assumes "ReadUInt32 r = (Inr len, r')" "would_cross r' (unat len)" "no_wrap r' (unat len)"
  shows "ReadLengthPrefixedString r = (Inl OutOfRange, r') \<and>
         reader_position r' = reader_position r + 4"
proof -
  have "unat len < 2 ^ 32"
    using unsigned_less [of len] by simp
  then have "unat len < (2 :: nat) ^ 64"
    by (rule less_trans) simp
  then have "unat (ucast len :: 64 word) = unat len"
    by (simp add: unsigned_ucast_eq take_bit_nat_eq_self)
  with assms(2,3) have "ReadString (ucast len) r' = (Inl OutOfRange, r')"
    by (intro ReadString_fails) simp_all
  with assms(1) ReadUInt32_position [OF assms(1)] show ?thesis
    by (simp add: ReadLengthPrefixedString_def)
qed


lemma those_map_Some:
  "(\<And>x. x \<in> set xs \<Longrightarrow> f x = Some (g x)) \<Longrightarrow> those (map f xs) = Some (map g xs)"
  by (induction xs) auto

lemma bytes_at_in_buffer:
  assumes "unat p + n \<le> length (reader_data r)" "unat p + n \<le> 2 ^ 64"
  shows "bytes_at r p n = Some (map (\<lambda>k. reader_data r ! (unat p + k)) [0..<n])"
  unfolding bytes_at_def
proof (rule those_map_Some)
  fix k assume "k \<in> set [0..<n]"
  then have k: "k < n" by simp
  with assms(2) have "unat p + k < 2 ^ 64" by simp
  moreover from this have "k < 2 ^ 64" by simp
  ultimately have "unat (p + of_nat k) = unat p + k"
    by (simp add: unat_add_lem [THEN iffD1] unat_of_nat)
  with k assms(1) show "byte_at r (p + of_nat k) = Some (reader_data r ! (unat p + k))"
    by (simp add: byte_at_def)
qed

lemma ReadUInt32_succeeds:
  assumes "wf_reader r" "unat (reader_position r) + 4 \<le> unat (reader_size r)"
  shows "\<exists>v. ReadUInt32 r = (Inr v, r\<lparr>reader_position := reader_position r + 4\<rparr>)"
proof -
  from assms have small: "unat (reader_position r) + 4 < 2 ^ 64"
    and inside: "unat (reader_position r) + 4 \<le> length (reader_data r)"
    by (simp_all add: wf_reader_def)
  from small assms(2) have "\<not> reader_size r < reader_position r + 4"
    using check_crosses [of "reader_position r" 4 "reader_size r"] by simp
  moreover from inside small have "bytes_at r (reader_position r) 4 \<noteq> None"
    by (simp add: bytes_at_in_buffer)
  ultimately show ?thesis
    by (auto simp: ReadUInt32_def)
qed

lemma wf_reader_advance:
  assumes "wf_reader r" "unat (reader_position r) + n \<le> unat (reader_size r)"
  shows "wf_reader (r\<lparr>reader_position := reader_position r + of_nat n\<rparr>) \<and>
         unat (reader_position r + of_nat n) = unat (reader_position r) + n"
proof -
  from assms have "unat (reader_position r) + n < 2 ^ 64" "n < 2 ^ 64"
    by (simp_all add: wf_reader_def)
  then have "unat (reader_position r + of_nat n) = unat (reader_position r) + n"
    by (simp add: unat_add_lem [THEN iffD1] unat_of_nat)
  with assms show ?thesis
    by (simp add: wf_reader_def word_le_nat_alt)
qed


lemma ReadFloatArray_loop_eq: "ReadFloatArray_loop n acc r = ReadUInt32Array_loop n acc r"
  by (induction n arbitrary: acc r) (auto simp: ReadFloat_def split: prod.splits sum.splits)

lemma ReadUInt32Array_loop_fails:
  assumes "wf_reader r" "(unat (reader_size r) - unat (reader_position r)) div 4 < n"
  shows "ReadUInt32Array_loop n acc r =
           (Inl OutOfRange,
            r\<lparr>reader_position := reader_position r +
                 of_nat (4 * ((unat (reader_size r) - unat (reader_position r)) div 4))\<rparr>)"
  using assms
proof (induction n arbitrary: acc r)
  case 0
  then show ?case by simp
next
  case (Suc n)
  let ?k = "(unat (reader_size r) - unat (reader_position r)) div 4"
  show ?case
  proof (cases "unat (reader_position r) + 4 \<le> unat (reader_size r)")
    case True
    let ?r1 = "r\<lparr>reader_position := reader_position r + 4\<rparr>"
    from ReadUInt32_succeeds [OF Suc.prems(1) True]
    obtain v where read: "ReadUInt32 r = (Inr v, ?r1)" by blast
    from wf_reader_advance [OF Suc.prems(1), of 4] True
    have wf1: "wf_reader ?r1" and pos1: "unat (reader_position r + 4) = unat (reader_position r) + 4"
      by simp_all
    from True have k: "?k = Suc ((unat (reader_size ?r1) - unat (reader_position ?r1)) div 4)"
      by (simp add: pos1)
    with Suc.prems(2) have less: "(unat (reader_size ?r1) - unat (reader_position ?r1)) div 4 < n"
      by simp
    have "ReadUInt32Array_loop (Suc n) acc r = ReadUInt32Array_loop n (acc @ [v]) ?r1"
      by (simp add: read)
    also have "\<dots> = (Inl OutOfRange,
        ?r1\<lparr>reader_position := reader_position ?r1 +
                of_nat (4 * ((unat (reader_size ?r1) - unat (reader_position ?r1)) div 4))\<rparr>)"
      by (rule Suc.IH [OF wf1 less])
    also have "\<dots> = (Inl OutOfRange, r\<lparr>reader_position := reader_position r + of_nat (4 * ?k)\<rparr>)"
      unfolding k by simp
    finally show ?thesis .
  next
    case False
    then have zero: "?k = 0" by simp
    from False Suc.prems(1) have "would_cross r 4" "no_wrap r 4"
      by (simp_all add: would_cross_def no_wrap_def wf_reader_def word_le_nat_alt)
    then have "ReadUInt32 r = (Inl OutOfRange, r)" by (rule ReadUInt32_fails)
    then show ?thesis by (simp add: zero)
  qed
qed


lemma null_terminated_loop_returns:
  "wf_reader r \<Longrightarrow> \<exists>s r'. null_terminated_loop r acc = (Inr s, r')"
proof (induction r acc rule: null_terminated_loop.induct)
  case (1 r result)
  show ?case
  proof (cases "reader_position r < reader_size r")
    case False
    then show ?thesis by (subst null_terminated_loop.simps) simp
  next
    case True
    with "1.prems" have inside: "unat (reader_position r) < length (reader_data r)"
      by (simp add: wf_reader_def word_less_nat_alt)
    then have byte: "byte_at r (reader_position r) = Some (reader_data r ! unat (reader_position r))"
      by (simp add: byte_at_def)
    show ?thesis
    proof (cases "reader_data r ! unat (reader_position r) = 0")
      case zero: True
      with True byte show ?thesis by (subst null_terminated_loop.simps) simp
    next
      case nonzero: False
      from True have "unat (reader_position r) + 1 \<le> unat (reader_size r)"
        by (simp add: word_less_nat_alt)
      from wf_reader_advance [OF "1.prems" this]
      have "wf_reader (r\<lparr>reader_position := reader_position r + 1\<rparr>)" by simp
      from "1.IH" [OF True byte nonzero this] True byte nonzero show ?thesis
        by (subst null_terminated_loop.simps) simp
    qed
  qed
qed

lemma ReadNullTerminatedString_returns:
  assumes "wf_reader r"
  shows "\<exists>s r'. ReadNullTerminatedString r = (Inr s, r')"
proof -
  from null_terminated_loop_returns [OF assms, of "[]"]
  obtain s r' where "null_terminated_loop r [] = (Inr s, r')" by blast
  then show ?thesis by (simp add: ReadNullTerminatedString_def)
qed

text \<open>
  C4 (as amended). For every reader: each fixed-width integer or floating-point read, the
  fixed-length string read, the byte-sequence read and skip fail with \<open>OutOfRange\<close> and leave
  the cursor where it was, whenever the bytes asked for would cross the end of the buffer and
  the sum of position and length is representable in \<^verbatim>\<open>size_t\<close>; seek fails in the same way
  for a target beyond the size. The length-prefixed string read fails with \<open>OutOfRange\<close> and an
  unchanged cursor when its 4-byte length would cross the end; when the length was read and the
  string would cross the end it fails with \<open>OutOfRange\<close> too, and the cursor stays after the
  length, 4 bytes further. On a well-formed reader the 32-bit and float sequence reads whose
  \<^verbatim>\<open>reserve(count)\<close> returns and that would cross the end fail with \<open>OutOfRange\<close>, and the
  cursor stays after the values that were read; when \<^verbatim>\<open>reserve(count)\<close> throws, they fail with
  that exception, not with \<open>OutOfRange\<close>, before anything is read and with the cursor where it
  was. On a well-formed reader the null-terminated string read never fails (it stops at the end
  of the buffer).
\<close>

theorem BinaryReader_out_of_range:
  "(would_cross r 1 \<longrightarrow>
      ReadUInt8 r = (Inl OutOfRange, r) \<and> ReadInt8 r = (Inl OutOfRange, r)) \<and>
   (would_cross r 2 \<and> no_wrap r 2 \<longrightarrow>
      ReadUInt16 r = (Inl OutOfRange, r) \<and> ReadInt16 r = (Inl OutOfRange, r)) \<and>
   (would_cross r 4 \<and> no_wrap r 4 \<longrightarrow>
      ReadUInt32 r = (Inl OutOfRange, r) \<and> ReadInt32 r = (Inl OutOfRange, r) \<and>
      ReadFloat r = (Inl OutOfRange, r) \<and> ReadLengthPrefixedString r = (Inl OutOfRange, r)) \<and>
   (would_cross r 8 \<and> no_wrap r 8 \<longrightarrow>
      ReadUInt64 r = (Inl OutOfRange, r) \<and> ReadInt64 r = (Inl OutOfRange, r) \<and>
      ReadDouble r = (Inl OutOfRange, r)) \<and>
   (would_cross r (unat n) \<and> no_wrap r (unat n) \<longrightarrow>
      ReadString n r = (Inl OutOfRange, r) \<and> ReadBytes n r = (Inl OutOfRange, r) \<and>
      Skip n r = (Inl OutOfRange, r)) \<and>
   (reader_size r < p \<longrightarrow> Seek p r = (Inl OutOfRange, r)) \<and>
   (ReadUInt32 r1 = (Inr len, r1') \<and> would_cross r1' (unat len) \<and> no_wrap r1' (unat len) \<longrightarrow>
      ReadLengthPrefixedString r1 = (Inl OutOfRange, r1') \<and>
      reader_position r1' = reader_position r1 + 4) \<and>
   (wf_reader r2 \<and> would_cross r2 (4 * unat count) \<and> reservable (unat count) \<longrightarrow>
      ReadUInt32Array reservable count r2 =
        (Inl OutOfRange,
         r2\<lparr>reader_position := reader_position r2 +
               of_nat (4 * ((unat (reader_size r2) - unat (reader_position r2)) div 4))\<rparr>) \<and>
      ReadFloatArray reservable count r2 = ReadUInt32Array reservable count r2) \<and>
   (\<not> reservable (unat count) \<longrightarrow>
      ReadUInt32Array reservable count r2 = (Inl ReserveFailed, r2) \<and>
      ReadFloatArray reservable count r2 = (Inl ReserveFailed, r2)) \<and>
   (wf_reader r3 \<longrightarrow> (\<exists>s r'. ReadNullTerminatedString r3 = (Inr s, r')))"
proof -
  have c1: "would_cross r 1 \<longrightarrow>
      ReadUInt8 r = (Inl OutOfRange, r) \<and> ReadInt8 r = (Inl OutOfRange, r)"
    using ReadUInt8_fails [of r] by (simp add: ReadInt8_def)
  have c2: "would_cross r 2 \<and> no_wrap r 2 \<longrightarrow>
      ReadUInt16 r = (Inl OutOfRange, r) \<and> ReadInt16 r = (Inl OutOfRange, r)"
    using ReadUInt16_fails [of r] by (simp add: ReadInt16_def)
  have c3: "would_cross r 4 \<and> no_wrap r 4 \<longrightarrow>
      ReadUInt32 r = (Inl OutOfRange, r) \<and> ReadInt32 r = (Inl OutOfRange, r) \<and>
      ReadFloat r = (Inl OutOfRange, r) \<and> ReadLengthPrefixedString r = (Inl OutOfRange, r)"
    using ReadUInt32_fails [of r]
    by (simp add: ReadInt32_def ReadFloat_def ReadLengthPrefixedString_def)
  have c4: "would_cross r 8 \<and> no_wrap r 8 \<longrightarrow>
      ReadUInt64 r = (Inl OutOfRange, r) \<and> ReadInt64 r = (Inl OutOfRange, r) \<and>
      ReadDouble r = (Inl OutOfRange, r)"
    using ReadUInt64_fails [of r] by (simp add: ReadInt64_def ReadDouble_def)
  have c5: "would_cross r (unat n) \<and> no_wrap r (unat n) \<longrightarrow>
      ReadString n r = (Inl OutOfRange, r) \<and> ReadBytes n r = (Inl OutOfRange, r) \<and>
      Skip n r = (Inl OutOfRange, r)"
    using ReadString_fails [of r n] ReadBytes_fails [of r n] Skip_fails [of r n] by simp
  have c6: "reader_size r < p \<longrightarrow> Seek p r = (Inl OutOfRange, r)"
    using Seek_fails [of r p] by simp
  have c7: "ReadUInt32 r1 = (Inr len, r1') \<and> would_cross r1' (unat len) \<and> no_wrap r1' (unat len) \<longrightarrow>
      ReadLengthPrefixedString r1 = (Inl OutOfRange, r1') \<and>
      reader_position r1' = reader_position r1 + 4"
    using ReadLengthPrefixedString_fails_after_length [of r1 len r1'] by simp
  have c8: "wf_reader r2 \<and> would_cross r2 (4 * unat count) \<and> reservable (unat count) \<longrightarrow>
      ReadUInt32Array reservable count r2 =
        (Inl OutOfRange,
         r2\<lparr>reader_position := reader_position r2 +
               of_nat (4 * ((unat (reader_size r2) - unat (reader_position r2)) div 4))\<rparr>) \<and>
      ReadFloatArray reservable count r2 = ReadUInt32Array reservable count r2"
  proof
    assume "wf_reader r2 \<and> would_cross r2 (4 * unat count) \<and> reservable (unat count)"
    then have wf: "wf_reader r2" and cross: "would_cross r2 (4 * unat count)"
      and reserved: "reservable (unat count)"
      by simp_all
    from wf have "unat (reader_position r2) \<le> unat (reader_size r2)"
      by (simp add: wf_reader_def word_le_nat_alt)
    with cross have "unat (reader_size r2) - unat (reader_position r2) < unat count * 4"
      by (simp add: would_cross_def)
    then have "(unat (reader_size r2) - unat (reader_position r2)) div 4 < unat count"
      by (rule less_mult_imp_div_less)
    from ReadUInt32Array_loop_fails [OF wf this, of "[]"] reserved
    show "ReadUInt32Array reservable count r2 =
        (Inl OutOfRange,
         r2\<lparr>reader_position := reader_position r2 +
               of_nat (4 * ((unat (reader_size r2) - unat (reader_position r2)) div 4))\<rparr>) \<and>
      ReadFloatArray reservable count r2 = ReadUInt32Array reservable count r2"
      by (simp add: ReadUInt32Array_def ReadFloatArray_def ReadFloatArray_loop_eq)
  qed
  have c8r: "\<not> reservable (unat count) \<longrightarrow>
      ReadUInt32Array reservable count r2 = (Inl ReserveFailed, r2) \<and>
      ReadFloatArray reservable count r2 = (Inl ReserveFailed, r2)"
    by (simp add: ReadUInt32Array_def ReadFloatArray_def)
  have c9: "wf_reader r3 \<longrightarrow> (\<exists>s r'. ReadNullTerminatedString r3 = (Inr s, r'))"
    using ReadNullTerminatedString_returns [of r3] by simp
  show ?thesis
    by (intro conjI) (fact c1, fact c2, fact c3, fact c4, fact c5, fact c6, fact c7, fact c8, fact c8r,
      fact c9)
qed


lemma upt_0_4: "[0..<4] = [0, 1, 2, 3]"
  by (simp add: upt_rec)

lemma ReadUInt32_reader_short_string:
  "ReadUInt32 reader_short_string = (Inr 5, reader_short_string\<lparr>reader_position := 4\<rparr>)"
  by (simp add: ReadUInt32_def reader_short_string_def BinaryReader_new_def bytes_at_def byte_at_def
      upt_0_4)

theorem BinaryReader_out_of_range_witness:
  "ReadUInt8 reader_at_end = (Inl OutOfRange, reader_at_end) \<and>
   ReadInt16 reader_at_end = (Inl OutOfRange, reader_at_end) \<and>
   ReadFloat reader_at_end = (Inl OutOfRange, reader_at_end) \<and>
   ReadDouble reader_at_end = (Inl OutOfRange, reader_at_end) \<and>
   ReadString 5 reader_at_end = (Inl OutOfRange, reader_at_end) \<and>
   ReadBytes 5 reader_at_end = (Inl OutOfRange, reader_at_end) \<and>
   Skip 5 reader_at_end = (Inl OutOfRange, reader_at_end) \<and>
   Seek 9 reader_at_end = (Inl OutOfRange, reader_at_end) \<and>
   ReadLengthPrefixedString reader_short_string =
     (Inl OutOfRange, reader_short_string\<lparr>reader_position := 4\<rparr>) \<and>
   ReadUInt32Array within_max_size 3 reader_two_words =
     (Inl OutOfRange, reader_two_words\<lparr>reader_position := 8\<rparr>) \<and>
   ReadFloatArray within_max_size 3 reader_two_words =
     (Inl OutOfRange, reader_two_words\<lparr>reader_position := 8\<rparr>) \<and>
   (\<exists>s r'. ReadNullTerminatedString reader_no_terminator = (Inr s, r'))"
proof -
  have at_end: "would_cross reader_at_end 1" "would_cross reader_at_end 2" "no_wrap reader_at_end 2"
    "would_cross reader_at_end 4" "no_wrap reader_at_end 4"
    "would_cross reader_at_end 8" "no_wrap reader_at_end 8"
    "would_cross reader_at_end (unat (5 :: 64 word))" "no_wrap reader_at_end (unat (5 :: 64 word))"
    "reader_size reader_at_end < 9"
    by (simp_all add: would_cross_def no_wrap_def reader_at_end_def BinaryReader_new_def)
  have short: "would_cross (reader_short_string\<lparr>reader_position := 4\<rparr>) (unat (5 :: 32 word))"
    "no_wrap (reader_short_string\<lparr>reader_position := 4\<rparr>) (unat (5 :: 32 word))"
    by (simp_all add: would_cross_def no_wrap_def reader_short_string_def BinaryReader_new_def)
  have words: "wf_reader reader_two_words" "would_cross reader_two_words (4 * unat (3 :: 64 word))"
    "within_max_size (unat (3 :: 64 word))"
    by (simp_all add: wf_reader_def would_cross_def reader_two_words_def BinaryReader_new_def
        within_max_size_def)
  have final: "reader_position reader_two_words +
      of_nat (4 * ((unat (reader_size reader_two_words) - unat (reader_position reader_two_words)) div 4)) = 8"
    by (simp add: reader_two_words_def BinaryReader_new_def)
  have no_term: "wf_reader reader_no_terminator"
    by (simp add: wf_reader_def reader_no_terminator_def BinaryReader_new_def)
  from BinaryReader_out_of_range [where r = reader_at_end and n = 5 and p = 9
      and ?r1.0 = reader_short_string and len = 5
      and r1' = "reader_short_string\<lparr>reader_position := 4\<rparr>"
      and ?r2.0 = reader_two_words and count = 3 and reservable = within_max_size
      and ?r3.0 = reader_no_terminator]
    at_end short words no_term ReadUInt32_reader_short_string
  have most: "ReadUInt8 reader_at_end = (Inl OutOfRange, reader_at_end) \<and>
      ReadInt16 reader_at_end = (Inl OutOfRange, reader_at_end) \<and>
      ReadFloat reader_at_end = (Inl OutOfRange, reader_at_end) \<and>
      ReadDouble reader_at_end = (Inl OutOfRange, reader_at_end) \<and>
      ReadString 5 reader_at_end = (Inl OutOfRange, reader_at_end) \<and>
      ReadBytes 5 reader_at_end = (Inl OutOfRange, reader_at_end) \<and>
      Skip 5 reader_at_end = (Inl OutOfRange, reader_at_end) \<and>
      Seek 9 reader_at_end = (Inl OutOfRange, reader_at_end) \<and>
      ReadLengthPrefixedString reader_short_string =
        (Inl OutOfRange, reader_short_string\<lparr>reader_position := 4\<rparr>) \<and>
      (\<exists>s r'. ReadNullTerminatedString reader_no_terminator = (Inr s, r'))"
    and uints: "ReadUInt32Array within_max_size 3 reader_two_words =
        (Inl OutOfRange, reader_two_words\<lparr>reader_position := 8\<rparr>)"
    and floats: "ReadFloatArray within_max_size 3 reader_two_words =
        ReadUInt32Array within_max_size 3 reader_two_words"
    unfolding final by blast+
  from most uints floats show ?thesis
    by simp
qed

text \<open>
  The other side of the reservation: a count of \<open>2^62\<close> is above \<^verbatim>\<open>max_size()\<close>, and the
  sequence read on the 9-byte reader fails at \<^verbatim>\<open>reserve\<close>, the cursor still at 0.
\<close>

lemma ReadUInt32Array_count_above_max_size:
  "ReadUInt32Array within_max_size 4611686018427387904 reader_two_words =
     (Inl ReserveFailed, reader_two_words) \<and>
   ReadFloatArray within_max_size 4611686018427387904 reader_two_words =
     (Inl ReserveFailed, reader_two_words)"
  by (simp add: ReadUInt32Array_def ReadFloatArray_def within_max_size_def)

text \<open>
  C4 as stated also promises an unchanged cursor for the length-prefixed string and for the
  sequence reads, and a failure of the null-terminated read. With the prefix 5 and one byte
  left, \<^verbatim>\<open>ReadLengthPrefixedString\<close> fails with the cursor at 4; \<^verbatim>\<open>ReadUInt32Array(3)\<close> on
  9 bytes fails with the cursor at 8; \<^verbatim>\<open>ReadNullTerminatedString\<close> on two non-zero bytes
  returns both bytes and does not fail.
\<close>

theorem ReadLengthPrefixedString_partial_advance:
  "would_cross (reader_short_string\<lparr>reader_position := 4\<rparr>) 5 \<and>
   ReadLengthPrefixedString reader_short_string =
     (Inl OutOfRange, reader_short_string\<lparr>reader_position := 4\<rparr>) \<and>
   reader_position (snd (ReadLengthPrefixedString reader_short_string)) \<noteq>
     reader_position reader_short_string \<and>
   would_cross reader_two_words (4 * 3) \<and>
   ReadUInt32Array within_max_size 3 reader_two_words =
     (Inl OutOfRange, reader_two_words\<lparr>reader_position := 8\<rparr>) \<and>
   ReadNullTerminatedString reader_no_terminator =
     (Inr [5, 1], reader_no_terminator\<lparr>reader_position := 2\<rparr>)"
proof -
  have a: "would_cross (reader_short_string\<lparr>reader_position := 4\<rparr>) 5"
    by (simp add: would_cross_def reader_short_string_def BinaryReader_new_def)
  have b: "ReadLengthPrefixedString reader_short_string =
     (Inl OutOfRange, reader_short_string\<lparr>reader_position := 4\<rparr>)"
    by (simp add: ReadLengthPrefixedString_def ReadUInt32_reader_short_string ReadString_def)
       (simp add: reader_short_string_def BinaryReader_new_def)
  have c: "reader_position (snd (ReadLengthPrefixedString reader_short_string)) \<noteq>
     reader_position reader_short_string"
    unfolding b by (simp add: reader_short_string_def BinaryReader_new_def)
  have d: "would_cross reader_two_words (4 * 3)"
    by (simp add: would_cross_def reader_two_words_def BinaryReader_new_def)
  have three: "unat (3 :: 64 word) = Suc (Suc (Suc 0))"
    by simp
  have reserved: "within_max_size (Suc (Suc (Suc 0)))"
    by (simp add: within_max_size_def)
  have e: "ReadUInt32Array within_max_size 3 reader_two_words =
     (Inl OutOfRange, reader_two_words\<lparr>reader_position := 8\<rparr>)"
    unfolding ReadUInt32Array_def three
    by (simp add: reserved)
       (simp add: ReadUInt32_def reader_two_words_def BinaryReader_new_def bytes_at_def byte_at_def
        upt_0_4)
  have f: "ReadNullTerminatedString reader_no_terminator =
     (Inr [5, 1], reader_no_terminator\<lparr>reader_position := 2\<rparr>)"
    by (simp add: ReadNullTerminatedString_def reader_no_terminator_def BinaryReader_new_def
        byte_at_def)
  from a b c d e f show ?thesis by simp
qed

end
